theory Spec2Isabelle
  imports Complex_Main
begin

section \<open>The search page of PubMed Semantic: handler, normalisation and rendering\<close>

text \<open>
  A shallow embedding of \<^verbatim>\<open>src/components/SearchPage.jsx\<close>: the submit handler
  \<^verbatim>\<open>handleSearch\<close>, the mapping of the backend's response to result cards, the
  expand toggle, and the three conditional panels of the component's output.
\<close>

subsection \<open>JavaScript values that come out of a response body\<close>

text \<open>
  What \<^verbatim>\<open>resp.json()\<close> can return. A number carries the value of the parsed double;
  the handler never calculates with it: it tests it against zero and hands it on, so the
  value is kept as a rational. An object is the list of its own properties, looked up by
  key. A string is a list of code units below 256.
\<close>

datatype json =
    JNull
  | JBool bool
  | JNum rat
  | JStr string
  | JArr "json list"
  | JObj "(string \<times> json) list"

text \<open>
  What can be thrown: a TypeError or a SyntaxError in the \<^verbatim>\<open>try\<close> block, a
  TypeError or React's Error in a render.
\<close>

datatype exn = TypeError | SyntaxError | Error

text \<open>
  Truthiness, as \<^verbatim>\<open>||\<close> tests it: \<^verbatim>\<open>null\<close>, \<^verbatim>\<open>false\<close>, zero and the empty
  string are falsy; every array and every object is truthy, the empty ones too.
\<close>

fun truthy :: "json \<Rightarrow> bool" where
  "truthy JNull = False"
| "truthy (JBool b) = b"
| "truthy (JNum n) = (n \<noteq> 0)"
| "truthy (JStr s) = (s \<noteq> [])"
| "truthy (JArr xs) = True"
| "truthy (JObj kvs) = True"

text \<open>
  \<^verbatim>\<open>a || d\<close>, where \<^verbatim>\<open>a\<close> may be \<^verbatim>\<open>undefined\<close> (\<open>None\<close>) and \<^verbatim>\<open>d\<close> is a
  literal.
\<close>

definition js_or :: "json option \<Rightarrow> json \<Rightarrow> json" where
  "js_or a d = (case a of None \<Rightarrow> d | Some v \<Rightarrow> if truthy v then v else d)"

text \<open>
  \<^verbatim>\<open>v.k\<close> on a value that is not \<^verbatim>\<open>null\<close>, for the keys this file reads
  (\<^verbatim>\<open>results\<close>, \<^verbatim>\<open>record\<close>, \<^verbatim>\<open>score\<close>, \<^verbatim>\<open>title\<close> and so on; none of them
  is defined by a prototype): an own property of an object, \<^verbatim>\<open>undefined\<close> on anything
  else.
\<close>

fun get_prop :: "json \<Rightarrow> string \<Rightarrow> json option" where
  "get_prop (JObj kvs) k = map_of kvs k"
| "get_prop v k = None"

text \<open>\<^verbatim>\<open>v.k\<close>: reading a property of \<^verbatim>\<open>null\<close> throws.\<close>

definition member :: "json \<Rightarrow> string \<Rightarrow> exn + json option" where
  "member v k = (case v of JNull \<Rightarrow> Inl TypeError | _ \<Rightarrow> Inr (get_prop v k))"

text \<open>\<^verbatim>\<open>v?.k\<close>: \<^verbatim>\<open>undefined\<close> when \<^verbatim>\<open>v\<close> is \<^verbatim>\<open>undefined\<close> or \<^verbatim>\<open>null\<close>.\<close>

definition opt_member :: "json option \<Rightarrow> string \<Rightarrow> json option" where
  "opt_member a k =
     (case a of None \<Rightarrow> None | Some JNull \<Rightarrow> None | Some v \<Rightarrow> get_prop v k)"

subsection \<open>The normalised result and the mapping of one item\<close>

record search_result =
  id_field :: nat
  title :: json
  authors :: json
  journal :: json
  year :: json
  abstract :: json
  relevanceScore :: json
  mesh_terms :: json
  url_full_text :: json
  url_pubmed :: json

text \<open>
  The callback of \<^verbatim>\<open>.map\<close> (lines 46 to 57). The object literal is evaluated top
  to bottom, and \<^verbatim>\<open>item.record\<close> is its first read of \<^verbatim>\<open>item\<close>: on a \<^verbatim>\<open>null\<close>
  item it throws before anything else happens.
\<close>

definition map_item :: "json \<Rightarrow> nat \<Rightarrow> exn + search_result" where
  "map_item item idx =
     (case member item ''record'' of
        Inl e \<Rightarrow> Inl e
      | Inr rec \<Rightarrow>
          Inr \<lparr> id_field = idx + 1,
                title = js_or (opt_member rec ''title'') (JStr ''''),
                authors = js_or (opt_member rec ''authors'') (JStr ''''),
                journal = js_or (opt_member rec ''journal'') (JStr ''''),
                year = js_or (opt_member rec ''year'') (JStr ''''),
                abstract = js_or (opt_member rec ''abstract'') (JStr ''''),
                relevanceScore = js_or (get_prop item ''score'') (JNum 0),
                mesh_terms = js_or (opt_member rec ''mesh_terms'') (JArr []),
                url_full_text = js_or (opt_member rec ''url_full_text'') JNull,
                url_pubmed = js_or (opt_member rec ''url_pubmed'') JNull \<rparr>)"

text \<open>\<^verbatim>\<open>Array.prototype.map\<close> with the index, stopping at the first throw.\<close>

fun map_items :: "nat \<Rightarrow> json list \<Rightarrow> exn + search_result list" where
  "map_items idx [] = Inr []"
| "map_items idx (item # rest) =
     (case map_item item idx of
        Inl e \<Rightarrow> Inl e
      | Inr r \<Rightarrow>
          (case map_items (Suc idx) rest of
             Inl e \<Rightarrow> Inl e
           | Inr rs \<Rightarrow> Inr (r # rs)))"

text \<open>
  Line 44: \<^verbatim>\<open>const list = Array.isArray(data) ? data : (data?.results || [])\<close>
\<close>

definition list_of :: "json \<Rightarrow> json" where
  "list_of data =
     (case data of
        JArr xs \<Rightarrow> JArr xs
      | _ \<Rightarrow> js_or (opt_member (Some data) ''results'') (JArr []))"

text \<open>
  \<^verbatim>\<open>const mapped = (list || []).map(...)\<close>. A truthy \<^verbatim>\<open>results\<close> that is no array
  (a string, a number, an object) has no callable \<^verbatim>\<open>map\<close>, and the call throws.
\<close>

definition mapped_of :: "json \<Rightarrow> exn + search_result list" where
  "mapped_of list =
     (case js_or (Some list) (JArr []) of
        JArr xs \<Rightarrow> map_items 0 xs
      | _ \<Rightarrow> Inl TypeError)"

subsection \<open>The component's state and what it touches outside\<close>

record filter_sel =
  year_sel :: string
  journal_sel :: string
  sortBy :: string

record search_meta =
  total_results :: "json option"
  results_range :: "json option"

record request =
  url :: string
  http_method :: string
  headers :: "(string \<times> string) list"
  body :: json

datatype log = SearchFailed nat | NetworkError exn

text \<open>
  The seven \<^verbatim>\<open>useState\<close> cells, then the global \<^verbatim>\<open>window.__searchMeta\<close>
  (\<open>None\<close> while nothing has assigned it), the requests handed to \<^verbatim>\<open>fetch\<close> so far,
  and the lines written with \<^verbatim>\<open>console.error\<close>. The \<^verbatim>\<open>body\<close> of a request is the
  value given to \<^verbatim>\<open>JSON.stringify\<close>.
\<close>

record state =
  searchQuery :: string
  searchResults :: "search_result list"
  isLoading :: bool
  mode :: string
  useMesh :: bool
  expandedIds :: "nat set"
  filters :: filter_sel
  searchMeta :: "search_meta option"
  requests :: "request list"
  console :: "log list"

definition initial_state :: state where
  "initial_state =
     \<lparr> searchQuery = '''', searchResults = [], isLoading = False,
       mode = ''semantic'', useMesh = True, expandedIds = {},
       filters = \<lparr> year_sel = '''', journal_sel = '''', sortBy = ''relevance'' \<rparr>,
       searchMeta = None, requests = [], console = [] \<rparr>"

text \<open>The \<^verbatim>\<open>onChange\<close> handlers of the form.\<close>

definition setSearchQuery :: "string \<Rightarrow> state \<Rightarrow> state" where
  "setSearchQuery q s = s\<lparr>searchQuery := q\<rparr>"

definition setMode :: "string \<Rightarrow> state \<Rightarrow> state" where
  "setMode m s = s\<lparr>mode := m\<rparr>"

definition setUseMesh :: "bool \<Rightarrow> state \<Rightarrow> state" where
  "setUseMesh b s = s\<lparr>useMesh := b\<rparr>"

subsection \<open>The outcome of the request\<close>

text \<open>
  The network is an input of the handler: \<^verbatim>\<open>fetch\<close> rejects (\<open>NetworkFailure\<close>), or
  resolves to a response with a status and a body that \<^verbatim>\<open>resp.json()\<close> parses or
  rejects. \<^verbatim>\<open>resp.ok\<close> is the Fetch API's: the status is in 200..299.
\<close>

datatype payload = BadJson | Json json

datatype outcome = NetworkFailure | Response nat payload

definition resp_ok :: "nat \<Rightarrow> bool" where
  "resp_ok status = (200 \<le> status \<and> status \<le> 299)"

fun failed :: "outcome \<Rightarrow> bool" where
  "failed NetworkFailure = True"
| "failed (Response status b) = (\<not> resp_ok status)"

subsection \<open>\<^verbatim>\<open>String.prototype.trim\<close>\<close>

text \<open>
  The white space and line terminators among the code units below 256: tab, line feed,
  vertical tab, form feed, carriage return, space, no-break space.
\<close>

definition is_space :: "char \<Rightarrow> bool" where
  "is_space c =
     (c = CHR 0x09 \<or> c = CHR 0x0A \<or> c = CHR 0x0B \<or> c = CHR 0x0C \<or> c = CHR 0x0D
      \<or> c = CHR 0x20 \<or> c = CHR 0xA0)"

definition trim :: "string \<Rightarrow> string" where
  "trim s = rev (dropWhile is_space (rev (dropWhile is_space s)))"

subsection \<open>\<^verbatim>\<open>handleSearch\<close>\<close>

text \<open>The arguments of \<^verbatim>\<open>fetch\<close> (lines 24 to 36).\<close>

definition search_request :: "state \<Rightarrow> request" where
  "search_request s =
     \<lparr> url = ''http://localhost:8000/search'',
       http_method = ''POST'',
       headers = [(''Content-Type'', ''application/json'')],
       body = JObj [(''query'', JStr (searchQuery s)),
                    (''mode'', JStr (mode s)),
                    (''use_mesh'', JBool (useMesh s)),
                    (''max_results'', JNum 25),
                    (''retmax'', JNum 200)] \<rparr>"

text \<open>
  The state the component shows while the handler waits for \<^verbatim>\<open>fetch\<close>:
  \<^verbatim>\<open>setIsLoading(true)\<close> has run and the request is out.
\<close>

definition pending :: "state \<Rightarrow> state" where
  "pending s = s\<lparr>isLoading := True, requests := requests s @ [search_request s]\<rparr>"

text \<open>
  The \<^verbatim>\<open>try\<close> block (lines 23 to 64) from the \<^verbatim>\<open>await\<close> of \<^verbatim>\<open>fetch\<close>
  on. A throw carries the state it leaves behind. \<^verbatim>\<open>mapped\<close> is computed before any
  setter is called, so a throw in the mapping leaves the state as it was.
\<close>

definition try_block :: "outcome \<Rightarrow> state \<Rightarrow> (exn \<times> state) + state" where
  "try_block out s =
     (case out of
        NetworkFailure \<Rightarrow> Inl (TypeError, s)
      | Response status b \<Rightarrow>
          if \<not> resp_ok status
          then Inr (s\<lparr>console := console s @ [SearchFailed status], searchResults := []\<rparr>)
          else
            (case b of
               BadJson \<Rightarrow> Inl (SyntaxError, s)
             | Json data \<Rightarrow>
                 (case mapped_of (list_of data) of
                    Inl e \<Rightarrow> Inl (e, s)
                  | Inr mapped \<Rightarrow>
                      Inr (s\<lparr>searchResults := mapped,
                             searchMeta :=
                               Some \<lparr> total_results = opt_member (Some data) ''total_results'',
                                      results_range = opt_member (Some data) ''results_range'' \<rparr>\<rparr>))))"

definition catch_block :: "exn \<Rightarrow> state \<Rightarrow> (exn \<times> state) + state" where
  "catch_block err s = Inr (s\<lparr>console := console s @ [NetworkError err], searchResults := []\<rparr>)"

definition finally_block :: "state \<Rightarrow> state" where
  "finally_block s = s\<lparr>isLoading := False\<rparr>"

text \<open>
  \<^verbatim>\<open>try { ... } catch (err) { ... } finally { ... }\<close>: the handler runs on the state
  the throw left; the cleanup runs on every path, and a throw that is still pending
  after it goes on to the caller.
\<close>

definition try_catch_finally ::
  "('s \<Rightarrow> (exn \<times> 's) + 's) \<Rightarrow> (exn \<Rightarrow> 's \<Rightarrow> (exn \<times> 's) + 's) \<Rightarrow> ('s \<Rightarrow> 's) \<Rightarrow> 's
     \<Rightarrow> (exn \<times> 's) + 's" where
  "try_catch_finally block handler cleanup s =
     (case (case block s of Inl (err, s') \<Rightarrow> handler err s' | Inr s' \<Rightarrow> Inr s') of
        Inl (err, s') \<Rightarrow> Inl (err, cleanup s')
      | Inr s' \<Rightarrow> Inr (cleanup s'))"

text \<open>
  The handler (lines 18 to 71), given how the request ends. Line 20 returns at once when
  the trimmed query is empty. \<open>Inl\<close> is an exception that reaches the
  caller. \<^verbatim>\<open>fetch\<close> is called inside the \<^verbatim>\<open>try\<close>, with nothing between it and
  \<^verbatim>\<open>setIsLoading(true)\<close>.
\<close>

definition handleSearch :: "outcome \<Rightarrow> state \<Rightarrow> (exn \<times> state) + state" where
  "handleSearch out s =
     (if trim (searchQuery s) = [] then Inr s
      else try_catch_finally (try_block out) catch_block finally_block (pending s))"

text \<open>The state the component is left in once the handler is over.\<close>

definition after_submit :: "outcome \<Rightarrow> state \<Rightarrow> state" where
  "after_submit out s = (case handleSearch out s of Inl (err, s') \<Rightarrow> s' | Inr s' \<Rightarrow> s')"

text \<open>
  The states the component's cells go through during one call, in order: after
  \<^verbatim>\<open>setIsLoading(true)\<close> (line 22), with the request out (line 24), on entering the
  \<^verbatim>\<open>finally\<close> block (after the \<^verbatim>\<open>try\<close> block, or after the \<^verbatim>\<open>catch\<close> block when
  it threw), and after \<^verbatim>\<open>setIsLoading(false)\<close> (line 69). A call that returns at
  line 20 goes through none.
\<close>

definition handleSearch_states :: "outcome \<Rightarrow> state \<Rightarrow> state list" where
  "handleSearch_states out s =
     (if trim (searchQuery s) = [] then []
      else
        [s\<lparr>isLoading := True\<rparr>, pending s] @
        (case (case try_block out (pending s) of
                 Inl (err, s') \<Rightarrow> catch_block err s'
               | Inr s' \<Rightarrow> Inr s') of
           Inl (err, s') \<Rightarrow> [s', finally_block s']
         | Inr s' \<Rightarrow> [s', finally_block s']))"

subsection \<open>The expand toggle\<close>

text \<open>
  The updater given to \<^verbatim>\<open>setExpandedIds\<close> (lines 305 to 309): a copy of the previous set, with the
  identifier deleted when it is there and added when it is not.
\<close>

definition toggle :: "nat \<Rightarrow> nat set \<Rightarrow> nat set" where
  "toggle rid prev = (let next = prev in if rid \<in> next then next - {rid} else insert rid next)"

definition onToggle :: "nat \<Rightarrow> state \<Rightarrow> state" where
  "onToggle rid s = s\<lparr>expandedIds := toggle rid (expandedIds s)\<rparr>"

subsection \<open>Sequences of user actions\<close>

datatype event =
    ChangeQuery string
  | ChangeMode string
  | ChangeUseMesh bool
  | Submit outcome
  | Toggle nat

fun step :: "event \<Rightarrow> state \<Rightarrow> state" where
  "step (ChangeQuery q) s = setSearchQuery q s"
| "step (ChangeMode m) s = setMode m s"
| "step (ChangeUseMesh b) s = setUseMesh b s"
| "step (Submit out) s = after_submit out s"
| "step (Toggle rid) s = onToggle rid s"

fun run :: "event list \<Rightarrow> state \<Rightarrow> state" where
  "run [] s = s"
| "run (e # es) s = run es (step e s)"

fun no_success :: "event \<Rightarrow> bool" where
  "no_success (Submit out) = failed out"
| "no_success e = True"

subsection \<open>What the component shows\<close>

text \<open>
  Converting a value to a string or a number (a template literal, \<^verbatim>\<open>join\<close>, \<^verbatim>\<open>*\<close>,
  \<^verbatim>\<open>>\<close>) goes through its \<^verbatim>\<open>toString\<close>. A parsed object inherits one that
  returns a string, unless it has an own property of that name: no parsed value can be
  called, and the conversion throws a TypeError. An array joins its elements, converting
  each in turn.
\<close>

fun to_string_ok :: "json \<Rightarrow> bool" where
  "to_string_ok (JObj kvs) = (map_of kvs ''toString'' = None)"
| "to_string_ok (JArr xs) = list_all to_string_ok xs"
| "to_string_ok v = True"

text \<open>
  What React accepts between tags: strings, numbers, booleans and \<^verbatim>\<open>null\<close> (the last
  two show nothing), and arrays of such. A plain object is refused with an Error
  ("Objects are not valid as a React child").
\<close>

fun valid_child :: "json \<Rightarrow> bool" where
  "valid_child (JObj kvs) = False"
| "valid_child (JArr xs) = list_all valid_child xs"
| "valid_child v = True"

text \<open>
  Whether a value that converts to a string is, read as a number, greater than zero.
  The string form of an array is its elements joined by commas: the empty string (zero)
  for no element, the string form of the element for one, and no numeral for more; a
  number prints to a numeral that reads back as itself; \<^verbatim>\<open>null\<close> in an array prints
  as the empty string, \<^verbatim>\<open>true\<close> and an object print as words. How a string is read
  as a number is the engine's own and is taken as a parameter: \<open>pos s\<close> says that
  the string \<open>s\<close> denotes a number greater than zero.
\<close>

fun form_positive :: "(string \<Rightarrow> bool) \<Rightarrow> json \<Rightarrow> bool" where
  "form_positive pos (JNum n) = (0 < n)"
| "form_positive pos (JStr s) = pos s"
| "form_positive pos (JArr [x]) = form_positive pos x"
| "form_positive pos v = False"

text \<open>\<^verbatim>\<open>v > 0\<close>: \<^verbatim>\<open>true\<close> counts as 1, everything else goes by its string form.\<close>

definition gt_zero :: "(string \<Rightarrow> bool) \<Rightarrow> json \<Rightarrow> exn + bool" where
  "gt_zero pos v =
     (if to_string_ok v
      then Inr (case v of JBool b \<Rightarrow> b | _ \<Rightarrow> form_positive pos v)
      else Inl TypeError)"

text \<open>
  Lines 283 and 284:
  \<^verbatim>\<open>result.mesh_terms && result.mesh_terms.length > 0 && (... result.mesh_terms.slice(0,4).join(', ') ...)\<close>.
  An array has \<^verbatim>\<open>slice\<close> and \<^verbatim>\<open>join\<close>; a string has a length and \<^verbatim>\<open>slice\<close> but
  no \<^verbatim>\<open>join\<close>; an object has the length its own property gives it and nothing to
  call; a number or a boolean has no length, and the comparison is false.
\<close>

definition mesh_label_throws :: "(string \<Rightarrow> bool) \<Rightarrow> json \<Rightarrow> bool" where
  "mesh_label_throws pos m =
     (if truthy m then
        (case m of
           JArr xs \<Rightarrow> length xs > 0 \<and> \<not> list_all to_string_ok (take 4 xs)
         | JStr s \<Rightarrow> length s > 0
         | JObj kvs \<Rightarrow>
             (case map_of kvs ''length'' of
                None \<Rightarrow> False
              | Some v \<Rightarrow>
                  (case gt_zero pos v of Inl e \<Rightarrow> True | Inr positive \<Rightarrow> positive))
         | _ \<Rightarrow> False)
      else False)"

text \<open>
  Building one card (lines 261 to 338) throws a TypeError in
  \<^verbatim>\<open>Math.round(result.relevanceScore * 100)\<close> (line 281) or in the MeSH label; the
  other fields are handed to React as they are.
\<close>

definition card_throws :: "(string \<Rightarrow> bool) \<Rightarrow> search_result \<Rightarrow> bool" where
  "card_throws pos r =
     (mesh_label_throws pos (mesh_terms r) \<or> \<not> to_string_ok (relevanceScore r))"

text \<open>The children of a card: lines 265, 269, 273, 274 and 298.\<close>

definition card_children_ok :: "search_result \<Rightarrow> bool" where
  "card_children_ok r =
     (valid_child (title r) \<and> valid_child (authors r) \<and> valid_child (journal r) \<and>
      valid_child (year r) \<and> valid_child (abstract r))"

text \<open>
  The line above the cards. Line 247 puts \<^verbatim>\<open>results_range\<close>, when truthy, into a
  template literal; line 246 has \<^verbatim>\<open>total_results\<close> as a child, unless it is
  \<^verbatim>\<open>null\<close> or \<^verbatim>\<open>undefined\<close>, when the number of results stands in.
\<close>

definition meta_field :: "(search_meta \<Rightarrow> json option) \<Rightarrow> state \<Rightarrow> json option" where
  "meta_field field s = (case searchMeta s of None \<Rightarrow> None | Some m \<Rightarrow> field m)"

definition count_line_throws :: "state \<Rightarrow> bool" where
  "count_line_throws s =
     (case meta_field results_range s of
        None \<Rightarrow> False
      | Some v \<Rightarrow> truthy v \<and> \<not> to_string_ok v)"

definition count_line_children_ok :: "state \<Rightarrow> bool" where
  "count_line_children_ok s =
     (case meta_field total_results s of
        None \<Rightarrow> True
      | Some v \<Rightarrow> valid_child v)"

text \<open>
  What the component returns below the form (lines 238, 344 and 368): the result cards
  (\<^verbatim>\<open>searchResults.length > 0 && ...\<close>), the panel "No Results Found" with the query it
  quotes (\<^verbatim>\<open>searchResults.length === 0 && !isLoading && searchQuery && ...\<close>), and the
  loading panel (\<^verbatim>\<open>isLoading && ...\<close>).
\<close>

record view =
  result_cards :: "search_result list option"
  no_results :: "string option"
  loading_panel :: bool

definition panels :: "state \<Rightarrow> view" where
  "panels s =
     \<lparr> result_cards =
         (if length (searchResults s) > 0 then Some (searchResults s) else None),
       no_results =
         (if length (searchResults s) = 0 \<and> \<not> isLoading s \<and> searchQuery s \<noteq> []
          then Some (searchQuery s) else None),
       loading_panel = isLoading s \<rparr>"

text \<open>
  One render of the component. The markup of the cards is built only for a result list
  that is not empty; building it can throw a TypeError, and after the component has
  returned React can refuse a child with an Error. Either way nothing of the page is
  shown (\<open>Inl\<close>). The form, the panel "No Results Found" and the loading panel hold
  strings only and cannot throw.
\<close>

definition render :: "(string \<Rightarrow> bool) \<Rightarrow> state \<Rightarrow> exn + view" where
  "render pos s =
     (if length (searchResults s) > 0 \<and>
         (count_line_throws s \<or> list_ex (card_throws pos) (searchResults s))
      then Inl TypeError
      else if length (searchResults s) > 0 \<and>
         \<not> (count_line_children_ok s \<and> list_all card_children_ok (searchResults s))
      then Inl Error
      else Inr (panels s))"

section \<open>General facts\<close>

lemmas handler_defs =
  handleSearch_def try_catch_finally_def try_block_def catch_block_def finally_block_def
  pending_def

lemmas eval_defs =
  handler_defs after_submit_def list_of_def mapped_of_def map_item_def member_def
  opt_member_def js_or_def search_request_def initial_state_def setSearchQuery_def
  setMode_def setUseMesh_def resp_ok_def trim_def is_space_def handleSearch_states_def
  render_def panels_def count_line_throws_def count_line_children_ok_def meta_field_def
  card_throws_def card_children_ok_def mesh_label_throws_def gt_zero_def

subsection \<open>Values\<close>

lemma member_not_null: "item \<noteq> JNull \<Longrightarrow> member item k = Inr (get_prop item k)"
  by (cases item) (simp_all add: member_def)

lemma js_or_absent: "js_or None d = d"
  by (simp add: js_or_def)

lemma js_or_truthy: "truthy v \<Longrightarrow> js_or (Some v) d = v"
  by (simp add: js_or_def)

lemma list_of_array: "list_of (JArr xs) = JArr xs"
  by (simp add: list_of_def)

lemma list_of_wrapped:
  "map_of kvs ''results'' = Some (JArr xs) \<Longrightarrow> list_of (JObj kvs) = JArr xs"
  by (simp add: list_of_def opt_member_def js_or_def)

subsection \<open>Trimming\<close>

text \<open>A query trims to the empty string exactly when it has nothing but white space.\<close>

lemma trim_Nil_iff: "trim q = [] \<longleftrightarrow> (\<forall>c \<in> set q. is_space c)"
proof
  assume "trim q = []"
  then have all: "\<forall>c \<in> set (dropWhile is_space q). is_space c"
    by (simp add: trim_def)
  have "dropWhile is_space q = []"
  proof (rule ccontr)
    assume ne: "dropWhile is_space q \<noteq> []"
    then have "\<not> is_space (hd (dropWhile is_space q))"
      by (rule hd_dropWhile)
    moreover have "hd (dropWhile is_space q) \<in> set (dropWhile is_space q)"
      using ne by (rule hd_in_set)
    ultimately show False
      using all by blast
  qed
  then show "\<forall>c \<in> set q. is_space c"
    by simp
next
  assume "\<forall>c \<in> set q. is_space c"
  then have blank: "dropWhile is_space q = []"
    by simp
  show "trim q = []"
    unfolding trim_def blank by simp
qed

lemma trim_nonempty: "trim q \<noteq> [] \<Longrightarrow> q \<noteq> []"
  by (auto simp: trim_def)

subsection \<open>The mapping\<close>

lemma map_item_not_null:
  "item \<noteq> JNull \<Longrightarrow>
     map_item item idx =
       Inr \<lparr> id_field = idx + 1,
             title = js_or (opt_member (get_prop item ''record'') ''title'') (JStr ''''),
             authors = js_or (opt_member (get_prop item ''record'') ''authors'') (JStr ''''),
             journal = js_or (opt_member (get_prop item ''record'') ''journal'') (JStr ''''),
             year = js_or (opt_member (get_prop item ''record'') ''year'') (JStr ''''),
             abstract = js_or (opt_member (get_prop item ''record'') ''abstract'') (JStr ''''),
             relevanceScore = js_or (get_prop item ''score'') (JNum 0),
             mesh_terms = js_or (opt_member (get_prop item ''record'') ''mesh_terms'') (JArr []),
             url_full_text = js_or (opt_member (get_prop item ''record'') ''url_full_text'') JNull,
             url_pubmed = js_or (opt_member (get_prop item ''record'') ''url_pubmed'') JNull \<rparr>"
  by (simp add: map_item_def member_not_null)

lemma map_items_length: "map_items idx xs = Inr rs \<Longrightarrow> length rs = length xs"
  by (induction xs arbitrary: idx rs) (auto split: sum.splits)

text \<open>A list without a \<^verbatim>\<open>null\<close> item is mapped item for item; nothing is thrown.\<close>

lemma map_items_no_null:
  "JNull \<notin> set items \<Longrightarrow> \<exists>rs. map_items idx items = Inr rs \<and> length rs = length items"
proof (induction items arbitrary: idx)
  case Nil
  then show ?case by simp
next
  case (Cons item rest)
  from Cons.prems have "item \<noteq> JNull" and "JNull \<notin> set rest"
    by auto
  from map_item_not_null [OF this(1)] obtain r where r: "map_item item idx = Inr r"
    by blast
  from Cons.IH [OF \<open>JNull \<notin> set rest\<close>] obtain rs
    where rs: "map_items (Suc idx) rest = Inr rs" "length rs = length rest"
    by blast
  show ?case
    by (simp add: r rs)
qed

lemma mapped_of_no_null:
  "JNull \<notin> set items \<Longrightarrow>
     \<exists>rs. mapped_of (list_of (JArr items)) = Inr rs \<and> length rs = length items"
  using map_items_no_null [of items 0] by (simp add: list_of_def mapped_of_def js_or_def)

subsection \<open>The handler\<close>

text \<open>No exception leaves the handler: the \<^verbatim>\<open>catch\<close> takes every throw of the block.\<close>

lemma handleSearch_returns: "\<exists>s'. handleSearch out s = Inr s'"
  by (auto simp: handler_defs split: sum.splits prod.splits)

lemma handleSearch_after: "handleSearch out s = Inr (after_submit out s)"
  using handleSearch_returns [of out s] by (auto simp: after_submit_def)

lemma after_submit_failed:
  assumes "failed out" and "trim (searchQuery s) \<noteq> []"
  shows "\<exists>entry. after_submit out s =
           s\<lparr>searchResults := [], isLoading := False,
             requests := requests s @ [search_request s],
             console := console s @ [entry]\<rparr>"
proof (cases out)
  case NetworkFailure
  with assms show ?thesis
    by (intro exI [of _ "NetworkError TypeError"]) (simp add: after_submit_def handler_defs)
next
  case (Response status b)
  with assms show ?thesis
    by (intro exI [of _ "SearchFailed status"]) (simp add: after_submit_def handler_defs)
qed

lemma after_submit_meta: "failed out \<Longrightarrow> searchMeta (after_submit out s) = searchMeta s"
  by (cases out) (auto simp: after_submit_def handler_defs)

lemma step_meta: "no_success e \<Longrightarrow> searchMeta (step e s) = searchMeta s"
  by (cases e)
    (simp_all add: after_submit_meta setSearchQuery_def setMode_def setUseMesh_def onToggle_def)

lemma run_meta: "\<forall>e \<in> set es. no_success e \<Longrightarrow> searchMeta (run es s) = searchMeta s"
  by (induction es arbitrary: s) (simp_all add: step_meta)

subsection \<open>Rendering\<close>

text \<open>With no result to show, no card is built and the render returns.\<close>

lemma render_empty: "searchResults s = [] \<Longrightarrow> render pos s = Inr (panels s)"
  by (simp add: render_def)



text \<open>
  Two responses whose results cannot be shown: a title that is an object is refused by
  React, and a \<^verbatim>\<open>mesh_terms\<close> that is a string has no \<^verbatim>\<open>join\<close>.
\<close>

lemma render_object_title:
  "render (\<lambda>w. False)
     (after_submit (Response 200 (Json (JArr [JObj [(''record'', JObj [(''title'', JObj [])])]])))
        (setSearchQuery ''flu'' initial_state)) = Inl Error"
  by (simp add: eval_defs)

lemma render_string_mesh_terms:
  "render (\<lambda>w. False)
     (after_submit
        (Response 200 (Json (JArr [JObj [(''record'', JObj [(''mesh_terms'', JStr ''x'')])]])))
        (setSearchQuery ''flu'' initial_state)) = Inl TypeError"
  by (simp add: eval_defs)

subsection \<open>The states of a call\<close>

lemma try_catch_keeps_loading:
  "(case try_block out s of Inl (err, s') \<Rightarrow> catch_block err s' | Inr s' \<Rightarrow> Inr s') = Inr mid
     \<Longrightarrow> isLoading mid = isLoading s"
  by (auto simp: try_block_def catch_block_def
           split: outcome.splits payload.splits sum.splits if_splits)

lemma try_catch_returns:
  "\<exists>mid. (case try_block out s of Inl (err, s') \<Rightarrow> catch_block err s' | Inr s' \<Rightarrow> Inr s')
           = Inr mid"
  by (auto simp: catch_block_def split: sum.splits prod.splits)

lemma handleSearch_states_shape:
  assumes "trim (searchQuery s) \<noteq> []"
  shows "\<exists>mid. handleSearch_states out s =
                  [s\<lparr>isLoading := True\<rparr>, pending s, mid, finally_block mid] \<and>
               isLoading mid \<and> handleSearch out s = Inr (finally_block mid)"
proof -
  from try_catch_returns [of out "pending s"] obtain mid where
    mid: "(case try_block out (pending s) of
             Inl (err, s') \<Rightarrow> catch_block err s' | Inr s' \<Rightarrow> Inr s') = Inr mid" ..
  have "isLoading mid = isLoading (pending s)"
    using mid by (rule try_catch_keeps_loading)
  then have "isLoading mid"
    by (simp add: pending_def)
  moreover have "handleSearch_states out s =
      [s\<lparr>isLoading := True\<rparr>, pending s, mid, finally_block mid]"
    using assms by (simp add: handleSearch_states_def mid)
  moreover have "handleSearch out s = Inr (finally_block mid)"
    using assms by (simp add: handleSearch_def try_catch_finally_def mid)
  ultimately show ?thesis
    by blast
qed

section \<open>The claims\<close>

subsection \<open>C1: both response shapes normalise alike\<close>

text \<open>
  Claim C1. A bare array of items and an object whose \<^verbatim>\<open>results\<close> property is that
  array give the same mapped list, the same result list after the handler, and so the
  same length; this holds for every list of items, the ones that make the mapping throw
  included, and whatever else the object carries. With the object
  \<^verbatim>\<open>{results: [...]}\<close> and nothing else in it, the handler ends in the very same state.
\<close>

theorem normalization_shape_invariant:
  assumes "map_of kvs ''results'' = Some (JArr items)"
  shows "mapped_of (list_of (JObj kvs)) = mapped_of (list_of (JArr items)) \<and>
         searchResults (after_submit (Response status (Json (JObj kvs))) s) =
           searchResults (after_submit (Response status (Json (JArr items))) s) \<and>
         length (searchResults (after_submit (Response status (Json (JObj kvs))) s)) =
           length (searchResults (after_submit (Response status (Json (JArr items))) s)) \<and>
         handleSearch (Response status (Json (JObj [(''results'', JArr items)]))) s =
           handleSearch (Response status (Json (JArr items))) s"
proof -
  have wrapped: "list_of (JObj kvs) = JArr items"
    using assms by (rule list_of_wrapped)
  have bare: "list_of (JObj [(''results'', JArr items)]) = JArr items"
    by (simp add: list_of_wrapped)
  have "mapped_of (list_of (JObj kvs)) = mapped_of (list_of (JArr items))"
    by (simp add: wrapped list_of_array)
  moreover have "searchResults (after_submit (Response status (Json (JObj kvs))) s) =
      searchResults (after_submit (Response status (Json (JArr items))) s)"
    by (auto simp: wrapped list_of_array after_submit_def handler_defs split: sum.splits)
  moreover have "handleSearch (Response status (Json (JObj [(''results'', JArr items)]))) s =
      handleSearch (Response status (Json (JArr items))) s"
    by (simp add: bare list_of_array handler_defs opt_member_def split: sum.splits)
  ultimately show ?thesis
    by simp
qed

theorem normalization_shape_invariant_witness:
  "map_of [(''total_results'', JNum 1), (''results'', JArr [JObj [(''score'', JNum 1)]])]
     ''results'' = Some (JArr [JObj [(''score'', JNum 1)]]) \<and>
   mapped_of (list_of (JObj [(''total_results'', JNum 1),
                             (''results'', JArr [JObj [(''score'', JNum 1)]])])) =
     mapped_of (list_of (JArr [JObj [(''score'', JNum 1)]])) \<and>
   searchResults (after_submit (Response 200 (Json (JObj [(''total_results'', JNum 1),
                             (''results'', JArr [JObj [(''score'', JNum 1)]])])))
                   (setSearchQuery ''flu'' initial_state)) =
     searchResults (after_submit (Response 200 (Json (JArr [JObj [(''score'', JNum 1)]])))
                   (setSearchQuery ''flu'' initial_state)) \<and>
   length (searchResults (after_submit (Response 200 (Json (JArr [JObj [(''score'', JNum 1)]])))
                   (setSearchQuery ''flu'' initial_state))) = 1"
  using normalization_shape_invariant
    [of "[(''total_results'', JNum 1), (''results'', JArr [JObj [(''score'', JNum 1)]])]"
        "[JObj [(''score'', JNum 1)]]" 200 "setSearchQuery ''flu'' initial_state"]
  by (simp add: eval_defs)

subsection \<open>C2: absent fields take their defaults\<close>

text \<open>
  Claim C2, as stated, is about every response item. A \<^verbatim>\<open>null\<close> item is the exception:
  \<^verbatim>\<open>item.record\<close> throws on it, the mapping of the whole list is abandoned, and the
  handler's \<^verbatim>\<open>catch\<close> leaves an empty result list.
\<close>

theorem null_item_throws:
  "map_item JNull 0 = Inl TypeError \<and>
   mapped_of (list_of (JArr [JNull])) = Inl TypeError \<and>
   searchResults (after_submit (Response 200 (Json (JArr [JNull])))
                    (setSearchQuery ''flu'' initial_state)) = []"
  by (simp add: eval_defs)

text \<open>
  Claim C2, amended. For every item that is not \<^verbatim>\<open>null\<close> (an object, or any other
  value), the mapping returns a result and throws nothing. Each field whose source
  (\<^verbatim>\<open>item.record?.k\<close>, or \<^verbatim>\<open>item.score\<close>) is absent takes its default: the empty
  string for title, authors, journal, year and abstract, the empty list for
  \<^verbatim>\<open>mesh_terms\<close>, \<^verbatim>\<open>null\<close> for the two URLs, and 0 for the score. A field that is
  there with a truthy value is copied. A list without \<^verbatim>\<open>null\<close> items maps to a list of
  the same length. The response of the scenario maps to the one result the scenario
  gives.
\<close>

theorem map_item_defaults:
  assumes "item \<noteq> JNull"
  shows "(\<exists>r. map_item item idx = Inr r \<and> id_field r = idx + 1 \<and>
    (opt_member (get_prop item ''record'') ''title'' = None \<longrightarrow> title r = JStr '''') \<and>
    (opt_member (get_prop item ''record'') ''authors'' = None \<longrightarrow> authors r = JStr '''') \<and>
    (opt_member (get_prop item ''record'') ''journal'' = None \<longrightarrow> journal r = JStr '''') \<and>
    (opt_member (get_prop item ''record'') ''year'' = None \<longrightarrow> year r = JStr '''') \<and>
    (opt_member (get_prop item ''record'') ''abstract'' = None \<longrightarrow> abstract r = JStr '''') \<and>
    (get_prop item ''score'' = None \<longrightarrow> relevanceScore r = JNum 0) \<and>
    (opt_member (get_prop item ''record'') ''mesh_terms'' = None \<longrightarrow> mesh_terms r = JArr []) \<and>
    (opt_member (get_prop item ''record'') ''url_full_text'' = None \<longrightarrow>
       url_full_text r = JNull) \<and>
    (opt_member (get_prop item ''record'') ''url_pubmed'' = None \<longrightarrow> url_pubmed r = JNull) \<and>
    (\<forall>v. truthy v \<longrightarrow>
       (opt_member (get_prop item ''record'') ''title'' = Some v \<longrightarrow> title r = v) \<and>
       (opt_member (get_prop item ''record'') ''authors'' = Some v \<longrightarrow> authors r = v) \<and>
       (opt_member (get_prop item ''record'') ''journal'' = Some v \<longrightarrow> journal r = v) \<and>
       (opt_member (get_prop item ''record'') ''year'' = Some v \<longrightarrow> year r = v) \<and>
       (opt_member (get_prop item ''record'') ''abstract'' = Some v \<longrightarrow> abstract r = v) \<and>
       (get_prop item ''score'' = Some v \<longrightarrow> relevanceScore r = v) \<and>
       (opt_member (get_prop item ''record'') ''mesh_terms'' = Some v \<longrightarrow> mesh_terms r = v) \<and>
       (opt_member (get_prop item ''record'') ''url_full_text'' = Some v \<longrightarrow>
          url_full_text r = v) \<and>
       (opt_member (get_prop item ''record'') ''url_pubmed'' = Some v \<longrightarrow>
          url_pubmed r = v))) \<and>
   (JNull \<notin> set items \<longrightarrow>
      (\<exists>rs. mapped_of (list_of (JArr items)) = Inr rs \<and> length rs = length items)) \<and>
   mapped_of (list_of (JArr [JObj [(''score'', JNum (87 / 100)),
      (''record'', JObj [(''title'', JStr ''T''), (''authors'', JStr ''A''),
         (''journal'', JStr ''J''), (''year'', JNum 2023), (''abstract'', JStr ''...''),
         (''mesh_terms'', JArr [JStr ''x''])])]])) =
     Inr [\<lparr> id_field = 1, title = JStr ''T'', authors = JStr ''A'', journal = JStr ''J'',
            year = JNum 2023, abstract = JStr ''...'', relevanceScore = JNum (87 / 100),
            mesh_terms = JArr [JStr ''x''], url_full_text = JNull, url_pubmed = JNull \<rparr>]"
proof (intro conjI)
  show "\<exists>r. map_item item idx = Inr r \<and> id_field r = idx + 1 \<and>
    (opt_member (get_prop item ''record'') ''title'' = None \<longrightarrow> title r = JStr '''') \<and>
    (opt_member (get_prop item ''record'') ''authors'' = None \<longrightarrow> authors r = JStr '''') \<and>
    (opt_member (get_prop item ''record'') ''journal'' = None \<longrightarrow> journal r = JStr '''') \<and>
    (opt_member (get_prop item ''record'') ''year'' = None \<longrightarrow> year r = JStr '''') \<and>
    (opt_member (get_prop item ''record'') ''abstract'' = None \<longrightarrow> abstract r = JStr '''') \<and>
    (get_prop item ''score'' = None \<longrightarrow> relevanceScore r = JNum 0) \<and>
    (opt_member (get_prop item ''record'') ''mesh_terms'' = None \<longrightarrow> mesh_terms r = JArr []) \<and>
    (opt_member (get_prop item ''record'') ''url_full_text'' = None \<longrightarrow>
       url_full_text r = JNull) \<and>
    (opt_member (get_prop item ''record'') ''url_pubmed'' = None \<longrightarrow> url_pubmed r = JNull) \<and>
    (\<forall>v. truthy v \<longrightarrow>
       (opt_member (get_prop item ''record'') ''title'' = Some v \<longrightarrow> title r = v) \<and>
       (opt_member (get_prop item ''record'') ''authors'' = Some v \<longrightarrow> authors r = v) \<and>
       (opt_member (get_prop item ''record'') ''journal'' = Some v \<longrightarrow> journal r = v) \<and>
       (opt_member (get_prop item ''record'') ''year'' = Some v \<longrightarrow> year r = v) \<and>
       (opt_member (get_prop item ''record'') ''abstract'' = Some v \<longrightarrow> abstract r = v) \<and>
       (get_prop item ''score'' = Some v \<longrightarrow> relevanceScore r = v) \<and>
       (opt_member (get_prop item ''record'') ''mesh_terms'' = Some v \<longrightarrow> mesh_terms r = v) \<and>
       (opt_member (get_prop item ''record'') ''url_full_text'' = Some v \<longrightarrow>
          url_full_text r = v) \<and>
       (opt_member (get_prop item ''record'') ''url_pubmed'' = Some v \<longrightarrow>
          url_pubmed r = v))"
    by (simp add: map_item_not_null [OF assms] js_or_absent js_or_truthy)
next
  show "JNull \<notin> set items \<longrightarrow>
      (\<exists>rs. mapped_of (list_of (JArr items)) = Inr rs \<and> length rs = length items)"
    using mapped_of_no_null [of items] by blast
next
  show "mapped_of (list_of (JArr [JObj [(''score'', JNum (87 / 100)),
      (''record'', JObj [(''title'', JStr ''T''), (''authors'', JStr ''A''),
         (''journal'', JStr ''J''), (''year'', JNum 2023), (''abstract'', JStr ''...''),
         (''mesh_terms'', JArr [JStr ''x''])])]])) =
     Inr [\<lparr> id_field = 1, title = JStr ''T'', authors = JStr ''A'', journal = JStr ''J'',
            year = JNum 2023, abstract = JStr ''...'', relevanceScore = JNum (87 / 100),
            mesh_terms = JArr [JStr ''x''], url_full_text = JNull, url_pubmed = JNull \<rparr>]"
    by (simp add: eval_defs)
qed

theorem map_item_defaults_witness:
  "JObj [(''score'', JNum (1 / 2)), (''record'', JObj [(''year'', JNum 2021)])] \<noteq> JNull \<and>
   (\<exists>r. map_item (JObj [(''score'', JNum (1 / 2)),
                         (''record'', JObj [(''year'', JNum 2021)])]) 4 = Inr r \<and>
      id_field r = 5 \<and> title r = JStr '''' \<and> authors r = JStr '''' \<and>
      journal r = JStr '''' \<and> year r = JNum 2021 \<and> abstract r = JStr '''' \<and>
      relevanceScore r = JNum (1 / 2) \<and> mesh_terms r = JArr [] \<and>
      url_full_text r = JNull \<and> url_pubmed r = JNull) \<and>
   JNull \<notin> set [JObj [], JStr ''x''] \<and>
   (\<exists>rs. mapped_of (list_of (JArr [JObj [], JStr ''x''])) = Inr rs \<and> length rs = 2)"
  using map_item_defaults
    [of "JObj [(''score'', JNum (1 / 2)), (''record'', JObj [(''year'', JNum 2021)])]" 4
        "[JObj [], JStr ''x'']"]
  by (auto simp: opt_member_def)

subsection \<open>C3: a failed request empties the result list\<close>

text \<open>
  Claim C3. A request goes out only for a query that is not empty once trimmed. When it
  ends in a status outside 200..299 or \<^verbatim>\<open>fetch\<close> rejects, the handler returns (no
  exception reaches its caller), the result list is empty, the query text is what it
  was, and the page renders with the panel "No Results Found" quoting it.
\<close>

theorem failed_request_clears_results:
  assumes "trim (searchQuery s) \<noteq> []" and "failed out"
  shows "\<exists>s'. handleSearch out s = Inr s' \<and> searchResults s' = [] \<and>
           searchQuery s' = searchQuery s \<and>
           (\<exists>v. render pos s' = Inr v \<and> no_results v = Some (searchQuery s))"
proof -
  from after_submit_failed [OF assms(2) assms(1)] obtain entry where
    eq: "after_submit out s =
           s\<lparr>searchResults := [], isLoading := False,
             requests := requests s @ [search_request s],
             console := console s @ [entry]\<rparr>" ..
  have "searchQuery s \<noteq> []"
    using assms(1) by (rule trim_nonempty)
  then show ?thesis
    using handleSearch_after [of out s] by (simp add: eq render_empty panels_def)
qed

text \<open>
  The witness starts from a state that holds one result of an earlier search; the first
  request ends in HTTP 500, the second in a network failure.
\<close>

theorem failed_request_clears_results_witness:
  "trim (searchQuery (after_submit (Response 200 (Json (JArr [JObj []])))
           (setSearchQuery ''flu'' initial_state))) \<noteq> [] \<and>
   failed (Response 500 BadJson) \<and> failed NetworkFailure \<and>
   length (searchResults (after_submit (Response 200 (Json (JArr [JObj []])))
           (setSearchQuery ''flu'' initial_state))) = 1 \<and>
   (\<exists>s'. handleSearch (Response 500 BadJson)
            (after_submit (Response 200 (Json (JArr [JObj []])))
               (setSearchQuery ''flu'' initial_state)) = Inr s' \<and>
         searchResults s' = [] \<and> searchQuery s' = ''flu'' \<and>
         (\<exists>v. render (\<lambda>w. False) s' = Inr v \<and> no_results v = Some ''flu'')) \<and>
   (\<exists>s'. handleSearch NetworkFailure
            (after_submit (Response 200 (Json (JArr [JObj []])))
               (setSearchQuery ''flu'' initial_state)) = Inr s' \<and>
         searchResults s' = [] \<and> searchQuery s' = ''flu'' \<and>
         (\<exists>v. render (\<lambda>w. False) s' = Inr v \<and> no_results v = Some ''flu''))"
  using failed_request_clears_results
    [of "after_submit (Response 200 (Json (JArr [JObj []])))
           (setSearchQuery ''flu'' initial_state)" "Response 500 BadJson" "\<lambda>w. False"]
    failed_request_clears_results
    [of "after_submit (Response 200 (Json (JArr [JObj []])))
           (setSearchQuery ''flu'' initial_state)" NetworkFailure "\<lambda>w. False"]
  by (simp add: eval_defs)

subsection \<open>C4: the loading flag is cleared on every path\<close>

text \<open>
  Claim C4, as stated, is about every query that is not empty. A single space is not
  empty, and submitting it takes none of the three paths: the handler returns at line 20,
  the flag is never set, and no \<^verbatim>\<open>finally\<close> block runs.
\<close>

theorem blank_submit_never_sets_loading:
  "searchQuery (setSearchQuery '' '' initial_state) \<noteq> [] \<and>
   handleSearch_states (Response 200 (Json (JArr []))) (setSearchQuery '' '' initial_state) = [] \<and>
   handleSearch (Response 200 (Json (JArr []))) (setSearchQuery '' '' initial_state) =
     Inr (setSearchQuery '' '' initial_state)"
  by (simp add: eval_defs)

text \<open>
  Claim C4, amended. For every query that is not empty once trimmed, and however the
  request ends (a response that maps, a response that does not parse or whose mapping
  throws, a status outside 200..299, a rejected \<^verbatim>\<open>fetch\<close>): the call first sets the
  flag, the flag stays true while the request is out and up to the \<^verbatim>\<open>finally\<close>
  block, the \<^verbatim>\<open>finally\<close> block clears it, and the state it leaves, with the flag
  false, is the one the handler returns.
\<close>

theorem loading_cleared_on_every_path:
  assumes "trim (searchQuery s) \<noteq> []"
  shows "(\<exists>mid. handleSearch_states out s =
                  [s\<lparr>isLoading := True\<rparr>, pending s, mid, finally_block mid]) \<and>
         isLoading (hd (handleSearch_states out s)) \<and>
         (\<forall>t \<in> set (butlast (handleSearch_states out s)). isLoading t) \<and>
         \<not> isLoading (last (handleSearch_states out s)) \<and>
         handleSearch out s = Inr (last (handleSearch_states out s))"
proof -
  from handleSearch_states_shape [OF assms, of out] obtain mid where
    shape: "handleSearch_states out s =
              [s\<lparr>isLoading := True\<rparr>, pending s, mid, finally_block mid]"
    and mid: "isLoading mid"
    and final: "handleSearch out s = Inr (finally_block mid)"
    by blast
  have "isLoading (pending s)"
    by (simp add: pending_def)
  then show ?thesis
    using mid final by (simp add: shape finally_block_def)
qed

theorem loading_cleared_on_every_path_witness:
  "trim (searchQuery (setSearchQuery ''flu'' initial_state)) \<noteq> [] \<and>
   length (handleSearch_states (Response 200 (Json (JArr [JObj []])))
             (setSearchQuery ''flu'' initial_state)) = 4 \<and>
   isLoading (hd (handleSearch_states (Response 200 (Json (JArr [JObj []])))
             (setSearchQuery ''flu'' initial_state))) \<and>
   \<not> isLoading (last (handleSearch_states (Response 200 (Json (JArr [JObj []])))
             (setSearchQuery ''flu'' initial_state))) \<and>
   handleSearch (Response 200 (Json (JArr [JObj []]))) (setSearchQuery ''flu'' initial_state) =
     Inr (last (handleSearch_states (Response 200 (Json (JArr [JObj []])))
             (setSearchQuery ''flu'' initial_state))) \<and>
   \<not> isLoading (last (handleSearch_states (Response 404 BadJson)
             (setSearchQuery ''flu'' initial_state))) \<and>
   handleSearch (Response 404 BadJson) (setSearchQuery ''flu'' initial_state) =
     Inr (last (handleSearch_states (Response 404 BadJson)
             (setSearchQuery ''flu'' initial_state))) \<and>
   \<not> isLoading (last (handleSearch_states NetworkFailure
             (setSearchQuery ''flu'' initial_state))) \<and>
   handleSearch NetworkFailure (setSearchQuery ''flu'' initial_state) =
     Inr (last (handleSearch_states NetworkFailure (setSearchQuery ''flu'' initial_state)))"
  using loading_cleared_on_every_path
      [of "setSearchQuery ''flu'' initial_state" "Response 200 (Json (JArr [JObj []]))"]
    loading_cleared_on_every_path
      [of "setSearchQuery ''flu'' initial_state" "Response 404 BadJson"]
    loading_cleared_on_every_path
      [of "setSearchQuery ''flu'' initial_state" NetworkFailure]
  by (auto simp: trim_def is_space_def setSearchQuery_def initial_state_def)

subsection \<open>C5: a blank query does nothing\<close>

text \<open>
  Claim C5. A query that is empty or has nothing but white space trims to the empty
  string, and the handler returns the state it was given: no request is added, and the
  result list, the loading flag and the stored metadata are what they were.
\<close>

theorem blank_query_is_noop:
  assumes "\<forall>c \<in> set (searchQuery s). is_space c"
  shows "trim (searchQuery s) = [] \<and> handleSearch out s = Inr s \<and> after_submit out s = s \<and>
         requests (after_submit out s) = requests s"
  using assms by (simp add: trim_Nil_iff handleSearch_def after_submit_def)

theorem blank_query_is_noop_witness:
  "searchQuery (setSearchQuery [CHR 0x20, CHR 0x09] initial_state) = [CHR 0x20, CHR 0x09] \<and>
   is_space (CHR 0x20) \<and> is_space (CHR 0x09) \<and>
   trim (searchQuery (setSearchQuery [CHR 0x20, CHR 0x09] initial_state)) = [] \<and>
   handleSearch NetworkFailure (setSearchQuery [CHR 0x20, CHR 0x09] initial_state) =
     Inr (setSearchQuery [CHR 0x20, CHR 0x09] initial_state) \<and>
   requests (after_submit NetworkFailure (setSearchQuery [CHR 0x20, CHR 0x09] initial_state)) = []"
  using blank_query_is_noop [of "setSearchQuery [CHR 0x20, CHR 0x09] initial_state" NetworkFailure]
  by (simp add: is_space_def setSearchQuery_def initial_state_def)

subsection \<open>C6: one POST request per submit\<close>

text \<open>
  Claim C6, as stated, is about every query that is not empty. A single space is not
  empty, and submitting it sends nothing: the guard tests the trimmed query.
\<close>

theorem whitespace_query_sends_nothing:
  "searchQuery (setSearchQuery '' '' initial_state) \<noteq> [] \<and>
   requests (after_submit (Response 200 (Json (JArr []))) (setSearchQuery '' '' initial_state)) = []"
  by (simp add: eval_defs)

text \<open>
  Claim C6, amended. For every query that is not empty once trimmed, a submit adds
  exactly one request, however it ends: a POST to the search endpoint whose body holds
  the query as typed, the mode, the MeSH switch, and the fixed \<^verbatim>\<open>max_results\<close> 25 and
  \<^verbatim>\<open>retmax\<close> 200. The request is out as soon as the handler waits.
\<close>

theorem submit_sends_one_post:
  assumes "trim (searchQuery s) \<noteq> []"
  shows "requests (pending s) = requests s @ [search_request s] \<and>
         requests (after_submit out s) = requests s @ [search_request s] \<and>
         url (search_request s) = ''http://localhost:8000/search'' \<and>
         http_method (search_request s) = ''POST'' \<and>
         body (search_request s) =
           JObj [(''query'', JStr (searchQuery s)), (''mode'', JStr (mode s)),
                 (''use_mesh'', JBool (useMesh s)),
                 (''max_results'', JNum 25), (''retmax'', JNum 200)]"
  using assms
  by (auto simp: after_submit_def handler_defs search_request_def
           split: sum.splits prod.splits outcome.splits payload.splits)

text \<open>The scenario: "cancer immunotherapy" with the defaults of the form.\<close>

theorem submit_sends_one_post_witness:
  "trim (searchQuery (setSearchQuery ''cancer immunotherapy'' initial_state)) \<noteq> [] \<and>
   requests (after_submit NetworkFailure (setSearchQuery ''cancer immunotherapy'' initial_state)) =
     [search_request (setSearchQuery ''cancer immunotherapy'' initial_state)] \<and>
   http_method (search_request (setSearchQuery ''cancer immunotherapy'' initial_state)) = ''POST'' \<and>
   body (search_request (setSearchQuery ''cancer immunotherapy'' initial_state)) =
     JObj [(''query'', JStr ''cancer immunotherapy''), (''mode'', JStr ''semantic''),
           (''use_mesh'', JBool True), (''max_results'', JNum 25), (''retmax'', JNum 200)]"
  using submit_sends_one_post
    [of "setSearchQuery ''cancer immunotherapy'' initial_state" NetworkFailure]
  by (simp add: trim_def is_space_def setSearchQuery_def initial_state_def)

subsection \<open>C7: what is shown while loading\<close>




subsection \<open>C8: when "No Results Found" is shown\<close>

text \<open>
  Claim C8 has the panel "No Results Found" only after a query was submitted, and
  nothing below the form before that. The component keeps no record of a submit: the
  guard \<^verbatim>\<open>searchQuery &&\<close> of line 344 reads the text in the input, which line 125
  updates on every keystroke. On the fresh page, with one letter typed and no request
  ever sent, the page renders the panel, saying that no papers match "a".
\<close>

theorem no_results_before_any_submit:
  "requests (setSearchQuery ''a'' initial_state) = [] \<and>
   searchResults (setSearchQuery ''a'' initial_state) = [] \<and>
   render (\<lambda>w. False) (setSearchQuery ''a'' initial_state) =
     Inr \<lparr> result_cards = None, no_results = Some ''a'', loading_panel = False \<rparr>"
  by (simp add: eval_defs)

subsection \<open>C9: the expand toggle\<close>

text \<open>
  Claim C9. Toggling an identifier twice gives back the set of expanded identifiers, and
  the whole state with it; a toggle leaves the result list, and so every abstract, as it
  was.
\<close>

theorem toggle_twice_restores:
  "toggle rid (toggle rid ids) = ids \<and>
   onToggle rid (onToggle rid s) = s \<and>
   searchResults (onToggle rid s) = searchResults s \<and>
   map abstract (searchResults (onToggle rid s)) = map abstract (searchResults s)"
  by (auto simp: toggle_def onToggle_def Let_def insert_absorb)

theorem toggle_twice_restores_witness:
  "toggle 2 {1, 2} = {1} \<and> toggle 2 (toggle 2 {1, 2}) = {1, 2} \<and>
   toggle 3 {1, 2} = {1, 2, 3} \<and> toggle 3 (toggle 3 {1, 2}) = {1, 2} \<and>
   expandedIds (onToggle 1 initial_state) = {1} \<and>
   onToggle 1 (onToggle 1 initial_state) = initial_state"
  using toggle_twice_restores [of 2 "{1, 2}" initial_state]
    toggle_twice_restores [of 3 "{1, 2}" initial_state]
    toggle_twice_restores [of 1 "{}" initial_state]
  by (auto simp: toggle_def onToggle_def initial_state_def)

subsection \<open>C10: a failed search leaves the stored metadata alone\<close>

text \<open>
  Claim C10. A search that fails (a status outside 200..299, or a rejected
  \<^verbatim>\<open>fetch\<close>) ends in the state it started from with the result list emptied, the
  loading flag false, the request added to those sent and one line added to the console;
  \<^verbatim>\<open>window.__searchMeta\<close> is what it was. Over any sequence of user actions in which
  every submit fails, the metadata stays what it was at the start.
\<close>

theorem failed_search_keeps_meta:
  "(failed out \<longrightarrow> trim (searchQuery s) \<noteq> [] \<longrightarrow>
      (\<exists>entry. after_submit out s =
           s\<lparr>searchResults := [], isLoading := False,
             requests := requests s @ [search_request s],
             console := console s @ [entry]\<rparr>)) \<and>
   (failed out \<longrightarrow> searchMeta (after_submit out s) = searchMeta s) \<and>
   ((\<forall>e \<in> set es. no_success e) \<longrightarrow> searchMeta (run es s) = searchMeta s)"
  using after_submit_failed [of out s] after_submit_meta [of out s] run_meta [of es s]
  by blast

text \<open>
  The witness starts after a search that stored a total of 7, and goes through an HTTP
  500, a change of the query and a network failure.
\<close>

theorem failed_search_keeps_meta_witness:
  "failed (Response 500 BadJson) \<and>
   no_success (Submit (Response 500 BadJson)) \<and> no_success (ChangeQuery ''cold'') \<and>
   no_success (Submit NetworkFailure) \<and>
   searchMeta (after_submit
      (Response 200 (Json (JObj [(''results'', JArr [JObj []]), (''total_results'', JNum 7)])))
      (setSearchQuery ''flu'' initial_state)) =
     Some \<lparr> total_results = Some (JNum 7), results_range = None \<rparr> \<and>
   searchMeta (after_submit (Response 500 BadJson) (after_submit
      (Response 200 (Json (JObj [(''results'', JArr [JObj []]), (''total_results'', JNum 7)])))
      (setSearchQuery ''flu'' initial_state))) =
     Some \<lparr> total_results = Some (JNum 7), results_range = None \<rparr> \<and>
   searchMeta (run [Submit (Response 500 BadJson), ChangeQuery ''cold'', Submit NetworkFailure]
     (after_submit
      (Response 200 (Json (JObj [(''results'', JArr [JObj []]), (''total_results'', JNum 7)])))
      (setSearchQuery ''flu'' initial_state))) =
     Some \<lparr> total_results = Some (JNum 7), results_range = None \<rparr>"
  using failed_search_keeps_meta
    [of "Response 500 BadJson"
        "after_submit
          (Response 200 (Json (JObj [(''results'', JArr [JObj []]), (''total_results'', JNum 7)])))
          (setSearchQuery ''flu'' initial_state)"
        "[Submit (Response 500 BadJson), ChangeQuery ''cold'', Submit NetworkFailure]"]
  by (simp add: eval_defs)

end
